theory Spec2Isabelle
  imports Main "HOL-Library.Sublist"
begin

section \<open>Strings of the formatter\<close>

text \<open>
  A JavaScript string is a sequence of UTF-16 code units. Code units are modelled
  as natural numbers, so that the curly quotes (U+201C, U+201D, U+2018, U+2019) and
  the Unicode white space of the regular expressions are single elements.
  \<open>js\<close> injects an ASCII literal.
\<close>

type_synonym codeunit = nat
type_synonym jsstring = "codeunit list"

definition js :: "string \<Rightarrow> jsstring" where
  "js s = map of_char s"

text \<open>
  The class \<open>\s\<close> of an ECMAScript regular expression (without the \<open>u\<close> flag) and the
  characters removed by \<open>String.prototype.trim\<close>: WhiteSpace and LineTerminator.
\<close>

definition isSpace :: "codeunit \<Rightarrow> bool" where
  "isSpace c \<longleftrightarrow>
     c = 9 \<or> c = 10 \<or> c = 11 \<or> c = 12 \<or> c = 13 \<or> c = 32 \<or> c = 160 \<or> c = 5760 \<or>
     (8192 \<le> c \<and> c \<le> 8202) \<or> c = 8232 \<or> c = 8233 \<or> c = 8239 \<or> c = 8287 \<or>
     c = 12288 \<or> c = 65279"

section \<open>Request fields\<close>

text \<open>
  \<open>FormData.get\<close> returns a string, a \<open>File\<close> or \<open>null\<close>; a file is its bytes.
  The form is the list of its entries, and \<open>get\<close> returns the first entry of a name.
\<close>

datatype formDataEntryValue = FString jsstring | FFile "nat list"

type_synonym formData = "(jsstring \<times> formDataEntryValue) list"

definition get :: "formData \<Rightarrow> jsstring \<Rightarrow> formDataEntryValue option" where
  "get fd name = map_of fd name"

record formatterOptions =
  justify :: bool
  tidySpacing :: bool
  titleCaseHeadings :: bool
  autoNumberHeadings :: bool
  convertQuotes :: bool

fun parseBoolean :: "formDataEntryValue option \<Rightarrow> bool \<Rightarrow> bool" where
  "parseBoolean (Some (FString v)) fallback = (v = js ''true'' \<or> v = js ''1'')"
| "parseBoolean _ fallback = fallback"

text \<open>Lines 306 to 312 of \<open>POST\<close>: the options record read from the form.\<close>

definition optionsOf :: "formData \<Rightarrow> formatterOptions" where
  "optionsOf fd =
     \<lparr> justify = parseBoolean (get fd (js ''justify'')) True,
       tidySpacing = parseBoolean (get fd (js ''tidySpacing'')) True,
       titleCaseHeadings = parseBoolean (get fd (js ''titleCaseHeadings'')) True,
       autoNumberHeadings = parseBoolean (get fd (js ''autoNumberHeadings'')) False,
       convertQuotes = parseBoolean (get fd (js ''convertQuotes'')) True \<rparr>"

section \<open>Presets\<close>

record presetConfig =
  fontFamily :: jsstring
  headingFont :: jsstring
  bodySize :: nat
  headingWeight :: nat
  lineHeight :: jsstring
  paragraphSpacing :: nat
  accent :: jsstring
  pageMargin :: jsstring
  background :: jsstring

text \<open>
  The sizes and the weight are integers; a template literal renders them in decimal.
  \<open>lineHeight\<close> is a fraction (1.5, 1.65, 1.58): the record keeps the text that the
  template literal renders for it.
\<close>

function numberToString :: "nat \<Rightarrow> jsstring" where
  "numberToString n =
     (if n < 10 then [48 + n] else numberToString (n div 10) @ [48 + n mod 10])"
  by pat_completeness auto
termination
  by (relation "measure id") auto

declare numberToString.simps [simp del]

definition classic :: presetConfig where
  \<open>classic =
     \<lparr> fontFamily = js ''"Times New Roman", Times, serif'',
       headingFont = js ''"Times New Roman", Times, serif'',
       bodySize = 12,
       headingWeight = 600,
       lineHeight = js ''1.5'',
       paragraphSpacing = 14,
       accent = js ''#1d4ed8'',
       pageMargin = js ''1in'',
       background = js ''#f8fafc'' \<rparr>\<close>

definition modern :: presetConfig where
  \<open>modern =
     \<lparr> fontFamily = js ''"Calibri", "Segoe UI", sans-serif'',
       headingFont = js ''"Source Sans Pro", "Calibri", "Segoe UI", sans-serif'',
       bodySize = 11,
       headingWeight = 600,
       lineHeight = js ''1.65'',
       paragraphSpacing = 16,
       accent = js ''#0f766e'',
       pageMargin = js ''0.9in'',
       background = js ''#f0fdfa'' \<rparr>\<close>

definition executive :: presetConfig where
  \<open>executive =
     \<lparr> fontFamily = js ''"Helvetica Neue", Arial, sans-serif'',
       headingFont = js ''Georgia, '' @ [39] @ js ''Times New Roman'' @ [39] @ js '', serif'',
       bodySize = 11,
       headingWeight = 700,
       lineHeight = js ''1.58'',
       paragraphSpacing = 15,
       accent = js ''#a16207'',
       pageMargin = js ''1in 1.15in 1in 1.15in'',
       background = js ''#fffbeb'' \<rparr>\<close>

text \<open>
  \<open>PRESET_CONFIG\<close> is an object literal, so \<open>PRESET_CONFIG[key]\<close> finds the three presets
  and, through the prototype chain, every member of \<open>Object.prototype\<close>. Such a member
  is a function or an object: it is truthy, and reading a preset field from it gives
  \<open>undefined\<close>, which a template literal renders as the text \<open>undefined\<close>.
  \<open>None\<close> is the value \<open>undefined\<close> of a key that is not found.
\<close>

datatype jsobject = Config presetConfig | Inherited

definition objectPrototypeKeys :: "jsstring list" where
  "objectPrototypeKeys =
     [js ''constructor'', js ''__proto__'', js ''hasOwnProperty'', js ''isPrototypeOf'',
      js ''propertyIsEnumerable'', js ''toLocaleString'', js ''toString'', js ''valueOf'',
      js ''__defineGetter__'', js ''__defineSetter__'', js ''__lookupGetter__'',
      js ''__lookupSetter__'']"

definition PRESET_CONFIG :: "jsstring \<Rightarrow> jsobject option" where
  "PRESET_CONFIG key =
     (if key = js ''classic'' then Some (Config classic)
      else if key = js ''modern'' then Some (Config modern)
      else if key = js ''executive'' then Some (Config executive)
      else if key \<in> set objectPrototypeKeys then Some Inherited
      else None)"

fun readField :: "(presetConfig \<Rightarrow> jsstring) \<Rightarrow> jsobject \<Rightarrow> jsstring" where
  "readField f (Config c) = f c"
| "readField f Inherited = js ''undefined''"

text \<open>
  Lines 303 and 304 of \<open>POST\<close>. \<open>presetId\<close> is the submitted value unless it is falsy
  (absent or the empty string); a \<open>File\<close> is used as a property key through its
  string conversion.
\<close>

definition presetId :: "formData \<Rightarrow> formDataEntryValue" where
  "presetId fd =
     (case get fd (js ''preset'') of
        None \<Rightarrow> FString (js ''classic'')
      | Some (FString s) \<Rightarrow> if s = [] then FString (js ''classic'') else FString s
      | Some (FFile b) \<Rightarrow> FFile b)"

fun toPropertyKey :: "formDataEntryValue \<Rightarrow> jsstring" where
  "toPropertyKey (FString s) = s"
| "toPropertyKey (FFile b) = js ''[object File]''"

definition chosenPreset :: "formData \<Rightarrow> jsstring" where
  "chosenPreset fd =
     (case PRESET_CONFIG (toPropertyKey (presetId fd)) of
        Some obj \<Rightarrow> toPropertyKey (presetId fd)
      | None \<Rightarrow> js ''classic'')"

section \<open>Style synthesis\<close>

definition numbering :: "jsobject \<Rightarrow> formatterOptions \<Rightarrow> jsstring" where
  \<open>numbering preset options =
    (if autoNumberHeadings options then
     js ''\<newline>'' @
     js ''  .docx-content {\<newline>'' @
     js ''    counter-reset: h1;\<newline>'' @
     js ''  }\<newline>'' @
     js ''  .docx-content h1 {\<newline>'' @
     js ''    counter-reset: h2;\<newline>'' @
     js ''  }\<newline>'' @
     js ''  .docx-content h1::before {\<newline>'' @
     js ''    counter-increment: h1;\<newline>'' @
     js ''    content: counter(h1) ". ";\<newline>'' @
     js ''  }\<newline>'' @
     js ''  .docx-content h2 {\<newline>'' @
     js ''    counter-reset: h3;\<newline>'' @
     js ''  }\<newline>'' @
     js ''  .docx-content h2::before {\<newline>'' @
     js ''    counter-increment: h2;\<newline>'' @
     js ''    content: counter(h1) "." counter(h2) " ";\<newline>'' @
     js ''  }\<newline>'' @
     js ''  .docx-content h3::before {\<newline>'' @
     js ''    counter-increment: h3;\<newline>'' @
     js ''    content: counter(h1) "." counter(h2) "." counter(h3) " ";\<newline>'' @
     js ''  }\<newline>'' @
     js ''  .docx-content h1::before,\<newline>'' @
     js ''  .docx-content h2::before,\<newline>'' @
     js ''  .docx-content h3::before {\<newline>'' @
     js ''    font-weight: '' @
     readField (numberToString \<circ> headingWeight) preset @
     js '';\<newline>'' @
     js ''    color: '' @
     readField accent preset @
     js '';\<newline>'' @
     js ''  }\<newline>''
     else [])\<close>

definition buildStyleSheet :: "jsobject \<Rightarrow> formatterOptions \<Rightarrow> jsstring" where
  \<open>buildStyleSheet preset options =
     js ''\<newline>'' @
     js ''  @page {\<newline>'' @
     js ''    margin: '' @
     readField pageMargin preset @
     js '';\<newline>'' @
     js ''  }\<newline>'' @
     js ''\<newline>'' @
     js ''  body {\<newline>'' @
     js ''    font-family: '' @
     readField fontFamily preset @
     js '';\<newline>'' @
     js ''    font-size: '' @
     readField (numberToString \<circ> bodySize) preset @
     js ''pt;\<newline>'' @
     js ''    line-height: '' @
     readField lineHeight preset @
     js '';\<newline>'' @
     js ''    color: #1f2937;\<newline>'' @
     js ''    background: #ffffff;\<newline>'' @
     js ''    margin: 0;\<newline>'' @
     js ''  }\<newline>'' @
     js ''\<newline>'' @
     js ''  .docx-shell {\<newline>'' @
     js ''    min-height: 100vh;\<newline>'' @
     js ''    background: '' @
     readField background preset @
     js '';\<newline>'' @
     js ''    padding: 48px 0;\<newline>'' @
     js ''  }\<newline>'' @
     js ''\<newline>'' @
     js ''  .docx-content {\<newline>'' @
     js ''    background: #ffffff;\<newline>'' @
     js ''    margin: 0 auto;\<newline>'' @
     js ''    max-width: 7in;\<newline>'' @
     js ''    padding: 1in 1.1in;\<newline>'' @
     js ''    box-shadow: 0 20px 45px -28px rgba(15, 23, 42, 0.45);\<newline>'' @
     js ''    border-radius: 12px;\<newline>'' @
     js ''  }\<newline>'' @
     js ''\<newline>'' @
     js ''  .docx-content p {\<newline>'' @
     js ''    margin: '' @
     readField (numberToString \<circ> paragraphSpacing) preset @
     js ''pt 0;\<newline>'' @
     js ''    '' @
     (if justify options then js ''text-align: justify;'' else js ''text-align: left;'') @
     js ''\<newline>'' @
     js ''  }\<newline>'' @
     js ''\<newline>'' @
     js ''  .docx-content h1,\<newline>'' @
     js ''  .docx-content h2,\<newline>'' @
     js ''  .docx-content h3,\<newline>'' @
     js ''  .docx-content h4,\<newline>'' @
     js ''  .docx-content h5,\<newline>'' @
     js ''  .docx-content h6 {\<newline>'' @
     js ''    font-family: '' @
     readField headingFont preset @
     js '';\<newline>'' @
     js ''    font-weight: '' @
     readField (numberToString \<circ> headingWeight) preset @
     js '';\<newline>'' @
     js ''    letter-spacing: -0.02em;\<newline>'' @
     js ''    color: '' @
     readField accent preset @
     js '';\<newline>'' @
     js ''    margin-top: 1.6em;\<newline>'' @
     js ''    margin-bottom: 0.5em;\<newline>'' @
     js ''  }\<newline>'' @
     js ''\<newline>'' @
     js ''  .docx-content h1 { font-size: 28px; }\<newline>'' @
     js ''  .docx-content h2 { font-size: 22px; }\<newline>'' @
     js ''  .docx-content h3 { font-size: 18px; }\<newline>'' @
     js ''\<newline>'' @
     js ''  .docx-content ul,\<newline>'' @
     js ''  .docx-content ol {\<newline>'' @
     js ''    margin: '' @
     readField (numberToString \<circ> paragraphSpacing) preset @
     js ''pt 0 '' @
     readField (numberToString \<circ> paragraphSpacing) preset @
     js ''pt 24px;\<newline>'' @
     js ''    padding: 0;\<newline>'' @
     js ''  }\<newline>'' @
     js ''\<newline>'' @
     js ''  .docx-content ul li {\<newline>'' @
     js ''    margin-bottom: 6px;\<newline>'' @
     js ''  }\<newline>'' @
     js ''\<newline>'' @
     js ''  .docx-content table {\<newline>'' @
     js ''    width: 100%;\<newline>'' @
     js ''    border-collapse: collapse;\<newline>'' @
     js ''    margin: 18px 0;\<newline>'' @
     js ''  }\<newline>'' @
     js ''\<newline>'' @
     js ''  .docx-content table th,\<newline>'' @
     js ''  .docx-content table td {\<newline>'' @
     js ''    border: 1px solid #e2e8f0;\<newline>'' @
     js ''    padding: 8px 12px;\<newline>'' @
     js ''  }\<newline>'' @
     js ''\<newline>'' @
     js ''  .docx-content blockquote {\<newline>'' @
     js ''    border-left: 4px solid '' @
     readField accent preset @
     js '';\<newline>'' @
     js ''    padding-left: 18px;\<newline>'' @
     js ''    margin: '' @
     readField (numberToString \<circ> paragraphSpacing) preset @
     js ''pt 0;\<newline>'' @
     js ''    font-style: italic;\<newline>'' @
     js ''    color: #475569;\<newline>'' @
     js ''  }\<newline>'' @
     js ''\<newline>'' @
     js ''  '' @
     numbering preset options @
     js ''\<newline>''\<close>

section \<open>Document assembly\<close>

text \<open>
  A thrown JavaScript value is kept as its message. The libraries of the pipeline are
  outside the repository: each is a parameter, a function that returns its result or
  the value it throws. Every call of one is appended to a log of calls.
\<close>

datatype exn = Exn jsstring

datatype call =
    Decode "nat list"
  | Sanitize jsstring
  | Encode jsstring
  | ConsoleError exn

record htmlDocument =
  documentHtml :: jsstring
  previewHtml :: jsstring

definition buildHtmlDocument ::
  "(jsstring \<Rightarrow> exn + jsstring) \<Rightarrow> jsstring \<Rightarrow> jsstring \<Rightarrow> formatterOptions \<Rightarrow> call list \<Rightarrow>
     (exn + htmlDocument) \<times> call list" where
  \<open>buildHtmlDocument sanitize bodyMarkup preset options log =
     (case PRESET_CONFIG preset of
        None \<Rightarrow> (Inl (Exn (js ''TypeError'')), log)
      | Some config \<Rightarrow>
          (let stylesheet = buildStyleSheet config options in
           case sanitize bodyMarkup of
             Inl e \<Rightarrow> (Inl e, log @ [Sanitize bodyMarkup])
           | Inr sanitizedContent \<Rightarrow>
               (Inr \<lparr> documentHtml =
                        js ''\<newline>'' @
                        js ''    <!doctype html>\<newline>'' @
                        js ''    <html lang="en">\<newline>'' @
                        js ''      <head>\<newline>'' @
                        js ''        <meta charset="utf-8" />\<newline>'' @
                        js ''        <title>Formatted Word Document</title>\<newline>'' @
                        js ''        <style>'' @
                        stylesheet @
                        js ''</style>\<newline>'' @
                        js ''      </head>\<newline>'' @
                        js ''      <body>\<newline>'' @
                        js ''        <div class="docx-shell">\<newline>'' @
                        js ''          <div class="docx-content">\<newline>'' @
                        js ''            '' @
                        sanitizedContent @
                        js ''\<newline>'' @
                        js ''          </div>\<newline>'' @
                        js ''        </div>\<newline>'' @
                        js ''      </body>\<newline>'' @
                        js ''    </html>\<newline>'' @
                        js ''  '',
                      previewHtml =
                        js ''\<newline>'' @
                        js ''    <style>'' @
                        stylesheet @
                        js ''</style>\<newline>'' @
                        js ''    <div class="docx-content">\<newline>'' @
                        js ''      '' @
                        sanitizedContent @
                        js ''\<newline>'' @
                        js ''    </div>\<newline>'' @
                        js ''  '' \<rparr>,
                log @ [Sanitize bodyMarkup])))\<close>

section \<open>Text transforms\<close>

text \<open>
  \<open>String.prototype.toLowerCase\<close> and \<open>toUpperCase\<close> on Basic Latin and the Latin-1
  Supplement: the capital letters from \<open>A\<close> to \<open>Z\<close> and from U+00C0 to U+00DE (without the
  multiplication sign U+00D7) are 32 below their small letters; the capital of the
  sharp s U+00DF is \<open>SS\<close>, that of U+00FF is U+0178 and that of the micro sign U+00B5
  is U+039C. The case tables of the engine for the other scripts are outside the
  repository; their code units are left as they are.
\<close>

definition toLowerCase :: "jsstring \<Rightarrow> jsstring" where
  "toLowerCase s =
     map (\<lambda>c. if (65 \<le> c \<and> c \<le> 90) \<or> (192 \<le> c \<and> c \<le> 222 \<and> c \<noteq> 215) then c + 32 else c) s"

definition upperCaseOf :: "codeunit \<Rightarrow> jsstring" where
  "upperCaseOf c =
     (if (97 \<le> c \<and> c \<le> 122) \<or> (224 \<le> c \<and> c \<le> 254 \<and> c \<noteq> 247) then [c - 32]
      else if c = 223 then [83, 83]
      else if c = 255 then [376]
      else if c = 181 then [924]
      else [c])"

definition toUpperCase :: "jsstring \<Rightarrow> jsstring" where
  "toUpperCase s = concat (map upperCaseOf s)"

text \<open>
  \<open>lower.split(/\s+/)\<close>: the pieces between the maximal runs of white space. A run at
  the start or at the end of the string leaves an empty first or last piece, and the
  empty string gives one empty piece. \<open>inRun\<close> says that the previous code unit was
  white space.
\<close>

fun splitSpaces :: "jsstring \<Rightarrow> bool \<Rightarrow> jsstring \<Rightarrow> jsstring list" where
  "splitSpaces cur inRun [] = [cur]"
| "splitSpaces cur inRun (c # cs) =
     (if isSpace c then
        (if inRun then splitSpaces [] True cs else cur # splitSpaces [] True cs)
      else splitSpaces (cur @ [c]) False cs)"

text \<open>\<open>word.split("-")\<close>: the pieces between the hyphens.\<close>

fun splitHyphen :: "jsstring \<Rightarrow> jsstring \<Rightarrow> jsstring list" where
  "splitHyphen cur [] = [cur]"
| "splitHyphen cur (c # cs) =
     (if c = 45 then cur # splitHyphen [] cs else splitHyphen (cur @ [c]) cs)"

text \<open>\<open>Array.prototype.join\<close>.\<close>

fun join :: "jsstring \<Rightarrow> jsstring list \<Rightarrow> jsstring" where
  "join sep [] = []"
| "join sep [w] = w"
| "join sep (w # v # ws) = w @ sep @ join sep (v # ws)"

definition smallWords :: "jsstring set" where
  "smallWords =
     {js ''and'', js ''or'', js ''the'', js ''of'', js ''for'', js ''in'', js ''on'',
      js ''to'', js ''a'', js ''an'', js ''with''}"

text \<open>\<open>part.charAt(0).toUpperCase() + part.slice(1)\<close>.\<close>

definition capitalize :: "jsstring \<Rightarrow> jsstring" where
  "capitalize part = toUpperCase (take 1 part) @ drop 1 part"

definition titleWord :: "nat \<Rightarrow> nat \<Rightarrow> jsstring \<Rightarrow> jsstring" where
  "titleWord n index word =
     (if word = [] then []
      else if 45 \<in> set word then join (js ''-'') (map capitalize (splitHyphen [] word))
      else if index \<noteq> 0 \<and> index \<noteq> n - 1 \<and> word \<in> smallWords then word
      else capitalize word)"

definition toTitleCase :: "jsstring \<Rightarrow> jsstring" where
  "toTitleCase input =
     (let lower = toLowerCase input;
          words = splitSpaces [] False lower
      in join (js '' '') (map (\<lambda>(index, word). titleWord (length words) index word)
                            (enumerate 0 words)))"

text \<open>
  The four replacements of \<open>convertSmartQuotes\<close>. The pattern \<open>(^|[\s([{<])q\<close> matches
  the quote \<open>q\<close> at the start of the string, or a code unit of the class followed by
  \<open>q\<close>; a match is replaced by its first group and the opening quote, and the search
  goes on behind the match. \<open>atStart\<close> says that the position is the start of the
  string.
\<close>

definition opensQuote :: "codeunit \<Rightarrow> bool" where
  "opensQuote c \<longleftrightarrow> isSpace c \<or> c = 40 \<or> c = 91 \<or> c = 123 \<or> c = 60"

fun replaceOpening :: "codeunit \<Rightarrow> codeunit \<Rightarrow> bool \<Rightarrow> jsstring \<Rightarrow> jsstring" where
  "replaceOpening q opening atStart [] = []"
| "replaceOpening q opening atStart [c] = (if atStart \<and> c = q then [opening] else [c])"
| "replaceOpening q opening atStart (c # d # cs) =
     (if atStart \<and> c = q then opening # replaceOpening q opening False (d # cs)
      else if opensQuote c \<and> d = q then c # opening # replaceOpening q opening False cs
      else c # replaceOpening q opening False (d # cs))"

definition replaceEvery :: "codeunit \<Rightarrow> codeunit \<Rightarrow> jsstring \<Rightarrow> jsstring" where
  "replaceEvery q closing s = map (\<lambda>c. if c = q then closing else c) s"

definition convertSmartQuotes :: "jsstring \<Rightarrow> jsstring" where
  "convertSmartQuotes value =
     (let result = replaceOpening 34 8220 True value;
          result = replaceEvery 34 8221 result;
          result = replaceOpening 39 8216 True result;
          result = replaceEvery 39 8217 result
      in result)"

text \<open>
  The chain of replacements of \<open>normalizeSpacing\<close> on the markup of a paragraph:
  \<open>/&nbsp;/g\<close>, \<open>/\s{2,}/g\<close>, \<open>/\s+([.,;:!?])/g\<close> and \<open>trim\<close>. Each search goes from left
  to right and continues behind a match.
\<close>

function replaceNbsp :: "jsstring \<Rightarrow> jsstring" where
  "replaceNbsp s =
     (if s = [] then []
      else if prefix (js ''&nbsp;'') s then 32 # replaceNbsp (drop 6 s)
      else hd s # replaceNbsp (tl s))"
  by pat_completeness auto
termination
  by (relation "measure length") auto

declare replaceNbsp.simps [simp del]

function collapseSpaces :: "jsstring \<Rightarrow> jsstring" where
  "collapseSpaces [] = []"
| "collapseSpaces (c # cs) =
     (if isSpace c \<and> cs \<noteq> [] \<and> isSpace (hd cs) then 32 # collapseSpaces (dropWhile isSpace cs)
      else c # collapseSpaces cs)"
  by pat_completeness auto
termination
  by (relation "measure length") (auto intro: le_imp_less_Suc length_dropWhile_le)

definition isPunct :: "codeunit \<Rightarrow> bool" where
  "isPunct c \<longleftrightarrow> c = 46 \<or> c = 44 \<or> c = 59 \<or> c = 58 \<or> c = 33 \<or> c = 63"

function stripBeforePunct :: "jsstring \<Rightarrow> jsstring" where
  "stripBeforePunct [] = []"
| "stripBeforePunct (c # cs) =
     (if isSpace c \<and> dropWhile isSpace cs \<noteq> [] \<and> isPunct (hd (dropWhile isSpace cs))
      then hd (dropWhile isSpace cs) # stripBeforePunct (tl (dropWhile isSpace cs))
      else c # stripBeforePunct cs)"
  by pat_completeness auto
termination
  by (relation "measure length")
     (auto intro: le_imp_less_Suc length_dropWhile_le le_trans [OF diff_le_self])

definition trim :: "jsstring \<Rightarrow> jsstring" where
  "trim s = rev (dropWhile isSpace (rev (dropWhile isSpace s)))"

definition normalizeHtml :: "jsstring \<Rightarrow> jsstring" where
  "normalizeHtml html = trim (stripBeforePunct (collapseSpaces (replaceNbsp html)))"

section \<open>Markup tree\<close>

text \<open>
  The document that \<open>cheerio\<close> holds: text nodes and elements with a tag name,
  attributes and children. The decoder writes no comments and no processing
  instructions. A tree is the list of the children of the root \<open>div\<close>, in document order.
\<close>

datatype node = Text jsstring | Element jsstring "(jsstring \<times> jsstring) list" "node list"

text \<open>
  \<open>el.html()\<close>: the serialization of the children, as the HTML fragment serialization
  algorithm writes text, attributes and void elements.
\<close>

definition escapeText :: "jsstring \<Rightarrow> jsstring" where
  "escapeText s =
     concat (map (\<lambda>c. if c = 38 then js ''&amp;'' else if c = 160 then js ''&nbsp;''
                       else if c = 60 then js ''&lt;'' else if c = 62 then js ''&gt;''
                       else [c]) s)"

definition escapeAttribute :: "jsstring \<Rightarrow> jsstring" where
  \<open>escapeAttribute s =
     concat (map (\<lambda>c. if c = 38 then js ''&amp;'' else if c = 160 then js ''&nbsp;''
                       else if c = 34 then js ''&quot;'' else [c]) s)\<close>

definition serializeAttributes :: "(jsstring \<times> jsstring) list \<Rightarrow> jsstring" where
  \<open>serializeAttributes attrs =
     concat (map (\<lambda>(name, v). js '' '' @ name @ js ''="'' @ escapeAttribute v @ js ''"'') attrs)\<close>

definition voidElements :: "jsstring set" where
  "voidElements =
     {js ''area'', js ''base'', js ''basefont'', js ''bgsound'', js ''br'', js ''col'',
      js ''embed'', js ''frame'', js ''hr'', js ''img'', js ''input'', js ''keygen'',
      js ''link'', js ''meta'', js ''param'', js ''source'', js ''track'', js ''wbr''}"

text \<open>
  The text of a \<open>style\<close>, \<open>script\<close>, \<open>xmp\<close>, \<open>iframe\<close>, \<open>noembed\<close>, \<open>noframes\<close> or
  \<open>plaintext\<close> element is written as it is, and so is the text of a \<open>noscript\<close> element,
  scripting being enabled in the options of the parser and of the serializer; all
  other text is escaped. \<open>raw\<close> says that the parent of the nodes is such an element.
\<close>

definition rawTextElements :: "jsstring set" where
  "rawTextElements =
     {js ''style'', js ''script'', js ''xmp'', js ''iframe'', js ''noembed'', js ''noframes'',
      js ''plaintext'', js ''noscript''}"

fun serializeIn :: "bool \<Rightarrow> node list \<Rightarrow> jsstring" where
  "serializeIn raw [] = []"
| "serializeIn raw (Text t # ns) = (if raw then t else escapeText t) @ serializeIn raw ns"
| "serializeIn raw (Element tag attrs kids # ns) =
     js ''<'' @ tag @ serializeAttributes attrs @ js ''>'' @
     (if tag \<in> voidElements then []
      else serializeIn (tag \<in> rawTextElements) kids @ js ''</'' @ tag @ js ''>'') @
     serializeIn raw ns"

text \<open>
  The markup of the children of an element that is none of these, as a paragraph and
  the root \<open>div\<close> are.
\<close>

definition serialize :: "node list \<Rightarrow> jsstring" where
  "serialize ns = serializeIn False ns"

text \<open>\<open>el.text()\<close>: the text of the descendants, in document order.\<close>

fun textOf :: "node list \<Rightarrow> jsstring" where
  "textOf [] = []"
| "textOf (Text t # ns) = t @ textOf ns"
| "textOf (Element tag attrs kids # ns) = textOf kids @ textOf ns"

subsection \<open>Parsing markup\<close>

text \<open>
  \<open>load(markup)\<close> and \<open>el.html(markup)\<close> parse markup into nodes. The parser is a
  library; this is a model of it for the markup that the serializer writes: text with
  the character references \<open>&amp;\<close>, \<open>&lt;\<close>, \<open>&gt;\<close>, \<open>&quot;\<close> and \<open>&nbsp;\<close>, start tags with
  double-quoted or unquoted attribute values, and end tags. A tag name ends at white
  space, \<open>/\<close> or \<open>>\<close>; names are lower-cased; after the start tag of an element whose
  text the serializer writes as it is, and of \<open>title\<close> and \<open>textarea\<close>, everything up to
  the end tag of that name is text (with the character references decoded in \<open>title\<close>
  and \<open>textarea\<close> only); an end tag closes the nearest open element of its name and is
  ignored when there is none; elements still open at the end of the input are closed
  there. The other repairs of the HTML tree construction (implied end tags, foster
  parenting, the adoption agency, duplicate attributes, the replacement of carriage
  returns and null characters) are not modelled; the theorems on re-parsed paragraphs
  are stated for paragraphs that need none of them.
\<close>

datatype token =
    Characters jsstring
  | StartTag jsstring "(jsstring \<times> jsstring) list"
  | EndTag jsstring

text \<open>The parser lowers the letters from \<open>A\<close> to \<open>Z\<close> in the names of tags and attributes.\<close>

definition asciiLowerCase :: "jsstring \<Rightarrow> jsstring" where
  "asciiLowerCase s = map (\<lambda>c. if 65 \<le> c \<and> c \<le> 90 then c + 32 else c) s"

definition isHtmlSpace :: "codeunit \<Rightarrow> bool" where
  "isHtmlSpace c \<longleftrightarrow> c = 9 \<or> c = 10 \<or> c = 12 \<or> c = 13 \<or> c = 32"

definition isAsciiLetter :: "codeunit \<Rightarrow> bool" where
  "isAsciiLetter c \<longleftrightarrow> (65 \<le> c \<and> c \<le> 90) \<or> (97 \<le> c \<and> c \<le> 122)"

function decodeEntities :: "jsstring \<Rightarrow> jsstring" where
  "decodeEntities s =
     (if s = [] then []
      else if prefix (js ''&amp;'') s then 38 # decodeEntities (drop 5 s)
      else if prefix (js ''&lt;'') s then 60 # decodeEntities (drop 4 s)
      else if prefix (js ''&gt;'') s then 62 # decodeEntities (drop 4 s)
      else if prefix (js ''&quot;'') s then 34 # decodeEntities (drop 6 s)
      else if prefix (js ''&nbsp;'') s then 160 # decodeEntities (drop 6 s)
      else hd s # decodeEntities (tl s))"
  by pat_completeness auto
termination
  by (relation "measure length") auto

declare decodeEntities.simps [simp del]

datatype attrState = BeforeName | InName | BeforeValue | InQuoted | InUnquoted

fun parseAttributes ::
  "attrState \<Rightarrow> jsstring \<Rightarrow> jsstring \<Rightarrow> jsstring \<Rightarrow> (jsstring \<times> jsstring) list" where
  "parseAttributes BeforeName name v [] = []"
| "parseAttributes st name v [] = [(asciiLowerCase name, decodeEntities v)]"
| "parseAttributes BeforeName name v (c # cs) =
     (if isHtmlSpace c \<or> c = 47 then parseAttributes BeforeName [] [] cs
      else parseAttributes InName [c] [] cs)"
| "parseAttributes InName name v (c # cs) =
     (if c = 61 then parseAttributes BeforeValue name [] cs
      else if isHtmlSpace c \<or> c = 47 then (asciiLowerCase name, []) # parseAttributes BeforeName [] [] cs
      else parseAttributes InName (name @ [c]) [] cs)"
| "parseAttributes BeforeValue name v (c # cs) =
     (if c = 34 then parseAttributes InQuoted name [] cs
      else if isHtmlSpace c then parseAttributes BeforeValue name [] cs
      else parseAttributes InUnquoted name [c] cs)"
| "parseAttributes InQuoted name v (c # cs) =
     (if c = 34 then (asciiLowerCase name, decodeEntities v) # parseAttributes BeforeName [] [] cs
      else parseAttributes InQuoted name (v @ [c]) cs)"
| "parseAttributes InUnquoted name v (c # cs) =
     (if isHtmlSpace c then (asciiLowerCase name, decodeEntities v) # parseAttributes BeforeName [] [] cs
      else parseAttributes InUnquoted name (v @ [c]) cs)"

definition isNameChar :: "codeunit \<Rightarrow> bool" where
  "isNameChar c \<longleftrightarrow> \<not> isHtmlSpace c \<and> c \<noteq> 47"

definition tagToken :: "jsstring \<Rightarrow> token" where
  "tagToken body =
     (if body \<noteq> [] \<and> hd body = 47 then EndTag (asciiLowerCase (takeWhile isNameChar (tl body)))
      else StartTag (asciiLowerCase (takeWhile isNameChar body))
             (parseAttributes BeforeName [] [] (dropWhile isNameChar body)))"

definition textToken :: "jsstring \<Rightarrow> token list" where
  "textToken acc = (if acc = [] then [] else [Characters (decodeEntities acc)])"

definition rcdataElements :: "jsstring set" where
  "rcdataElements = {js ''title'', js ''textarea''}"

datatype lexState = InData | InTag bool | InRawText jsstring

text \<open>The state after a tag: the text of a raw-text element follows its start tag.\<close>

definition stateAfter :: "token \<Rightarrow> lexState" where
  "stateAfter t =
     (case t of
        StartTag name attrs \<Rightarrow>
          if name \<in> rawTextElements \<or> name \<in> rcdataElements then InRawText name else InData
      | _ \<Rightarrow> InData)"

text \<open>
  Whether the input after a \<open><\<close> is the end tag of the raw-text element \<open>name\<close>: \<open>/\<close>, the
  name in either case, and white space, \<open>/\<close> or \<open>>\<close>. The text of \<open>plaintext\<close> never ends.
\<close>

definition closesRawText :: "jsstring \<Rightarrow> jsstring \<Rightarrow> bool" where
  "closesRawText name cs \<longleftrightarrow>
     name \<noteq> js ''plaintext'' \<and>
     asciiLowerCase (take (Suc (length name)) cs) = 47 # name \<and>
     (let r = drop (Suc (length name)) cs
      in r \<noteq> [] \<and> (isHtmlSpace (hd r) \<or> hd r = 47 \<or> hd r = 62))"

definition rawToken :: "jsstring \<Rightarrow> jsstring \<Rightarrow> token list" where
  "rawToken name acc =
     (if acc = [] then []
      else [Characters (if name \<in> rcdataElements then decodeEntities acc else acc)])"

fun tokenize :: "lexState \<Rightarrow> jsstring \<Rightarrow> jsstring \<Rightarrow> token list" where
  "tokenize InData acc [] = textToken acc"
| "tokenize InData acc (c # cs) =
     (if c = 60 \<and> cs \<noteq> [] \<and> (isAsciiLetter (hd cs) \<or> hd cs = 47)
      then textToken acc @ tokenize (InTag False) [] cs
      else tokenize InData (acc @ [c]) cs)"
| "tokenize (InTag quoted) acc [] = []"
| "tokenize (InTag quoted) acc (c # cs) =
     (if c = 62 \<and> \<not> quoted then tagToken acc # tokenize (stateAfter (tagToken acc)) [] cs
      else tokenize (InTag (if c = 34 then \<not> quoted else quoted)) (acc @ [c]) cs)"
| "tokenize (InRawText name) acc [] = rawToken name acc"
| "tokenize (InRawText name) acc (c # cs) =
     (if c = 60 \<and> closesRawText name cs
      then rawToken name acc @ tokenize (InTag False) [] cs
      else tokenize (InRawText name) (acc @ [c]) cs)"

text \<open>
  The tree builder keeps the open elements on a stack, each with the children that its
  parent had before it was opened; \<open>cur\<close> holds the children of the innermost open
  element. A row that starts in a \<open>table\<close> is put in an implied \<open>tbody\<close>, and a cell that
  starts in a \<open>table\<close> or in a \<open>tbody\<close>, \<open>thead\<close> or \<open>tfoot\<close> in the implied \<open>tbody\<close> and
  \<open>tr\<close>.
\<close>

type_synonym frame = "jsstring \<times> (jsstring \<times> jsstring) list \<times> node list"

fun closeFrame :: "frame \<Rightarrow> node list \<Rightarrow> node list" where
  "closeFrame (tag, attrs, earlier) cur = earlier @ [Element tag attrs cur]"

definition implied :: "frame list \<Rightarrow> jsstring \<Rightarrow> jsstring list" where
  "implied st tag =
     (case st of
        [] \<Rightarrow> []
      | f # fs \<Rightarrow>
          if fst f = js ''table'' \<and> tag = js ''tr'' then [js ''tbody'']
          else if fst f = js ''table'' \<and> (tag = js ''td'' \<or> tag = js ''th'')
            then [js ''tbody'', js ''tr'']
          else if (fst f = js ''tbody'' \<or> fst f = js ''thead'' \<or> fst f = js ''tfoot'') \<and>
                  (tag = js ''td'' \<or> tag = js ''th'')
            then [js ''tr'']
          else [])"

fun openImplied :: "jsstring list \<Rightarrow> frame list \<Rightarrow> node list \<Rightarrow> frame list \<times> node list" where
  "openImplied [] st cur = (st, cur)"
| "openImplied (name # names) st cur = openImplied names ((name, [], cur) # st) []"

function build :: "frame list \<Rightarrow> node list \<Rightarrow> token list \<Rightarrow> node list" where
  "build [] cur [] = cur"
| "build (f # st) cur [] = build st (closeFrame f cur) []"
| "build st cur (Characters t # ts) = build st (cur @ [Text t]) ts"
| "build st cur (StartTag tag attrs # ts) =
     (case openImplied (implied st tag) st cur of
        (st', cur') \<Rightarrow>
          if tag \<in> voidElements then build st' (cur' @ [Element tag attrs []]) ts
          else build ((tag, attrs, cur') # st') [] ts)"
| "build [] cur (EndTag tag # ts) = build [] cur ts"
| "build (f # st) cur (EndTag tag # ts) =
     (if fst f = tag then build st (closeFrame f cur) ts
      else if tag \<in> set (map fst st) then build st (closeFrame f cur) (EndTag tag # ts)
      else build (f # st) cur ts)"
  by pat_completeness auto
termination
  by (relation "measures [\<lambda>(st, cur, ts). length ts, \<lambda>(st, cur, ts). length st]") auto

definition parseFragment :: "jsstring \<Rightarrow> node list" where
  "parseFragment markup = build [] [] (tokenize InData [] markup)"

section \<open>Tree transforms\<close>

text \<open>
  \<open>normalizeSpacing\<close>. \<open>$("p")\<close> selects the paragraphs in document order before the
  loop starts, and the loop changes or removes only the paragraph it visits, so the
  loop is a pass over each list of siblings from left to right: \<open>visited\<close> holds the
  siblings already visited, as the loop left them. A paragraph inside a visited
  paragraph is no longer part of the document when the loop reaches it, because
  \<open>el.html(normalized)\<close> has replaced the children of the outer paragraph; visiting it
  changes nothing in the document.
\<close>

definition isParagraph :: "node \<Rightarrow> bool" where
  "isParagraph n = (case n of Text t \<Rightarrow> False | Element tag attrs kids \<Rightarrow> tag = js ''p'')"

definition isElement :: "node \<Rightarrow> bool" where
  "isElement n = (case n of Text t \<Rightarrow> False | Element tag attrs kids \<Rightarrow> True)"

text \<open>\<open>el.prev("p")\<close>: the preceding sibling element, if it is a paragraph.\<close>

definition prev :: "node list \<Rightarrow> node option" where
  "prev visited =
     (case filter isElement visited of
        [] \<Rightarrow> None
      | e # es \<Rightarrow> if isParagraph (last (e # es)) then Some (last (e # es)) else None)"

text \<open>\<open>previous.length === 0 || previous.text().trim().length === 0\<close>.\<close>

definition previousBlank :: "node list \<Rightarrow> bool" where
  "previousBlank visited =
     (case prev visited of
        None \<Rightarrow> True
      | Some previous \<Rightarrow> trim (textOf [previous]) = [])"

fun normalizeParagraphs :: "node list \<Rightarrow> node list \<Rightarrow> node list" where
  "normalizeParagraphs visited [] = visited"
| "normalizeParagraphs visited (Text t # rest) = normalizeParagraphs (visited @ [Text t]) rest"
| "normalizeParagraphs visited (Element tag attrs kids # rest) =
     (if tag = js ''p'' then
        (let html = serialize kids;
             normalized = normalizeHtml html
         in if normalized = [] then
              (if previousBlank visited then normalizeParagraphs visited rest
               else normalizeParagraphs (visited @ [Element tag attrs (parseFragment [])]) rest)
            else normalizeParagraphs (visited @ [Element tag attrs (parseFragment normalized)]) rest)
      else normalizeParagraphs (visited @ [Element tag attrs (normalizeParagraphs [] kids)]) rest)"

text \<open>
  \<open>$("p:empty").remove()\<close>: \<open>:empty\<close> holds of an element with no element child and no
  text child of positive length. The selection is made before any element is removed.
\<close>

definition isEmpty :: "node list \<Rightarrow> bool" where
  "isEmpty kids = list_all (\<lambda>k. case k of Text t \<Rightarrow> t = [] | Element tag attrs ks \<Rightarrow> False) kids"

fun removeEmptyParagraphs :: "node list \<Rightarrow> node list" where
  "removeEmptyParagraphs [] = []"
| "removeEmptyParagraphs (Text t # rest) = Text t # removeEmptyParagraphs rest"
| "removeEmptyParagraphs (Element tag attrs kids # rest) =
     (if tag = js ''p'' \<and> isEmpty kids then removeEmptyParagraphs rest
      else Element tag attrs (removeEmptyParagraphs kids) # removeEmptyParagraphs rest)"

definition normalizeSpacing :: "node list \<Rightarrow> node list" where
  "normalizeSpacing tree = removeEmptyParagraphs (normalizeParagraphs [] tree)"

text \<open>
  \<open>applyTitleCase\<close>: \<open>el.text(s)\<close> replaces the children of a heading by one text node,
  so a heading inside a heading is no longer part of the document when its turn comes.
\<close>

fun applyTitleCase :: "node list \<Rightarrow> node list" where
  "applyTitleCase [] = []"
| "applyTitleCase (Text t # rest) = Text t # applyTitleCase rest"
| "applyTitleCase (Element tag attrs kids # rest) =
     (if tag = js ''h1'' \<or> tag = js ''h2'' \<or> tag = js ''h3''
      then Element tag attrs [Text (toTitleCase (textOf kids))]
      else Element tag attrs (applyTitleCase kids)) # applyTitleCase rest"

text \<open>
  \<open>applySmartQuotes\<close>: every child of every element below \<open>body\<close>, which is every
  node of the tree; a text node with a falsy (empty) value is skipped.
\<close>

fun applySmartQuotes :: "node list \<Rightarrow> node list" where
  "applySmartQuotes [] = []"
| "applySmartQuotes (Text t # rest) =
     Text (if t \<noteq> [] then convertSmartQuotes t else t) # applySmartQuotes rest"
| "applySmartQuotes (Element tag attrs kids # rest) =
     Element tag attrs (applySmartQuotes kids) # applySmartQuotes rest"

section \<open>Request handler\<close>

text \<open>
  The libraries of the pipeline: \<open>convertToHtml\<close> stands for reading the bytes of the
  file and \<open>mammoth.convertToHtml\<close>, \<open>sanitize\<close> for \<open>DOMPurify.sanitize\<close>, and \<open>asBlob\<close>
  for \<open>htmlDocx.asBlob\<close> with the base64 text of its bytes. A request is the outcome of
  \<open>request.formData()\<close>, which rejects when the body cannot be read as form data.
\<close>

record externals =
  convertToHtml :: "nat list \<Rightarrow> exn + jsstring"
  sanitize :: "jsstring \<Rightarrow> exn + jsstring"
  asBlob :: "jsstring \<Rightarrow> exn + jsstring"

datatype json = ErrorBody jsstring | ResultBody jsstring jsstring jsstring

record response =
  status :: nat
  body :: json

definition invalidUpload :: response where
  "invalidUpload = \<lparr> status = 400, body = ErrorBody (js ''Upload a valid .docx file.'') \<rparr>"

definition formatFailure :: response where
  "formatFailure =
     \<lparr> status = 500,
       body = ErrorBody (js ''We could not format that document. Please ensure it is a valid .docx exported from Word.'') \<rparr>"

text \<open>The \<open>catch\<close> block: the error is logged and the fixed response returned.\<close>

definition caught :: "exn \<Rightarrow> call list \<Rightarrow> (exn + response) \<times> call list" where
  "caught e log = (Inr formatFailure, log @ [ConsoleError e])"

text \<open>
  The result is the response, or the exception that leaves the handler, and the log
  of the library calls made.
\<close>

definition POST :: "externals \<Rightarrow> exn + formData \<Rightarrow> (exn + response) \<times> call list" where
  "POST ext request =
     (case request of
        Inl e \<Rightarrow> (Inl e, [])
      | Inr formData \<Rightarrow>
          (case get formData (js ''file'') of
             Some (FFile file) \<Rightarrow>
               (let chosen = chosenPreset formData;
                    options = optionsOf formData
                in case convertToHtml ext file of
                     Inl e \<Rightarrow> caught e [Decode file]
                   | Inr rawHtml \<Rightarrow>
                       (let tree = parseFragment rawHtml;
                            tree = (if tidySpacing options then normalizeSpacing tree else tree);
                            tree = (if titleCaseHeadings options then applyTitleCase tree else tree);
                            tree = (if convertQuotes options then applySmartQuotes tree else tree);
                            bodyMarkup = serialize tree
                        in case buildHtmlDocument (sanitize ext) bodyMarkup chosen options
                                  [Decode file] of
                             (Inl e, log) \<Rightarrow> caught e log
                           | (Inr doc, log) \<Rightarrow>
                               (case asBlob ext (documentHtml doc) of
                                  Inl e \<Rightarrow> caught e (log @ [Encode (documentHtml doc)])
                                | Inr base64 \<Rightarrow>
                                    (Inr \<lparr> status = 200,
                                           body = ResultBody base64 (previewHtml doc) chosen \<rparr>,
                                     log @ [Encode (documentHtml doc)]))))
           | _ \<Rightarrow> (Inr invalidUpload, [])))"

section \<open>Auxiliary functions of the proofs\<close>

text \<open>
  The directional rule for one kind of quote, read from left to right: \<open>opens\<close> says
  that the code unit before the position lets a quote open (or that there is none).
\<close>

fun directional :: "codeunit \<Rightarrow> codeunit \<Rightarrow> codeunit \<Rightarrow> bool \<Rightarrow> jsstring \<Rightarrow> jsstring" where
  "directional q opening closing opens [] = []"
| "directional q opening closing opens (c # cs) =
     (if c = q then (if opens then opening else closing) else c) #
     directional q opening closing (opensQuote c) cs"

text \<open>
  The text that \<open>buildHtmlDocument\<close> writes before and after the sanitized content, in
  the document and in the preview.
\<close>

definition documentPrefix :: "jsstring \<Rightarrow> jsstring" where
  \<open>documentPrefix stylesheet =
     js ''\<newline>'' @
     js ''    <!doctype html>\<newline>'' @
     js ''    <html lang="en">\<newline>'' @
     js ''      <head>\<newline>'' @
     js ''        <meta charset="utf-8" />\<newline>'' @
     js ''        <title>Formatted Word Document</title>\<newline>'' @
     js ''        <style>'' @
     stylesheet @
     js ''</style>\<newline>'' @
     js ''      </head>\<newline>'' @
     js ''      <body>\<newline>'' @
     js ''        <div class="docx-shell">\<newline>'' @
     js ''          <div class="docx-content">\<newline>'' @
     js ''            ''\<close>

definition documentSuffix :: jsstring where
  \<open>documentSuffix =
     js ''\<newline>'' @
     js ''          </div>\<newline>'' @
     js ''        </div>\<newline>'' @
     js ''      </body>\<newline>'' @
     js ''    </html>\<newline>'' @
     js ''  ''\<close>

definition previewPrefix :: "jsstring \<Rightarrow> jsstring" where
  \<open>previewPrefix stylesheet =
     js ''\<newline>'' @
     js ''    <style>'' @
     stylesheet @
     js ''</style>\<newline>'' @
     js ''    <div class="docx-content">\<newline>'' @
     js ''      ''\<close>

definition previewSuffix :: jsstring where
  \<open>previewSuffix =
     js ''\<newline>'' @
     js ''    </div>\<newline>'' @
     js ''  ''\<close>

text \<open>The markup that the transforms of \<open>POST\<close> leave of the decoder's markup.\<close>

definition transformed :: "formatterOptions \<Rightarrow> jsstring \<Rightarrow> jsstring" where
  "transformed options rawHtml =
     (let tree = parseFragment rawHtml;
          tree = (if tidySpacing options then normalizeSpacing tree else tree);
          tree = (if titleCaseHeadings options then applyTitleCase tree else tree);
          tree = (if convertQuotes options then applySmartQuotes tree else tree)
      in serialize tree)"

text \<open>
  The tree without its paragraphs (every \<open>p\<close> element is deleted with what it holds),
  and the trees that hold no paragraph.
\<close>

fun withoutParagraphs :: "node list \<Rightarrow> node list" where
  "withoutParagraphs [] = []"
| "withoutParagraphs (Text t # rest) = Text t # withoutParagraphs rest"
| "withoutParagraphs (Element tag attrs kids # rest) =
     (if tag = js ''p'' then withoutParagraphs rest
      else Element tag attrs (withoutParagraphs kids) # withoutParagraphs rest)"

fun noParagraph :: "node list \<Rightarrow> bool" where
  "noParagraph [] = True"
| "noParagraph (Text t # rest) = noParagraph rest"
| "noParagraph (Element tag attrs kids # rest) =
     (tag \<noteq> js ''p'' \<and> noParagraph kids \<and> noParagraph rest)"

text \<open>
  Properties of markup that the replacements establish: no two adjacent white-space
  code units, no white space before a punctuation mark, no \<open>&nbsp\<close>, no white space at
  either end. \<open>references\<close> holds of markup in which every \<open>&\<close> starts one of the
  character references that the serializer writes.
\<close>

fun noAdjacentSpaces :: "jsstring \<Rightarrow> bool" where
  "noAdjacentSpaces [] = True"
| "noAdjacentSpaces [c] = True"
| "noAdjacentSpaces (c # d # cs) = (\<not> (isSpace c \<and> isSpace d) \<and> noAdjacentSpaces (d # cs))"



fun references :: "jsstring \<Rightarrow> bool" where
  "references [] = True"
| "references (c # cs) =
     ((c = 38 \<longrightarrow> prefix (js ''amp;'') cs \<or> prefix (js ''lt;'') cs \<or> prefix (js ''gt;'') cs \<or>
                  prefix (js ''quot;'') cs \<or> prefix (js ''nbsp;'') cs) \<and>
      references cs)"





text \<open>
  Markup that the parser model reads back as the serializer wrote it: text nodes, no two
  of them adjacent, and elements other than paragraphs, raw-text elements, rows and
  cells, whose tag and attribute names consist of lower-case letters, digits and hyphens, the tag
  starting with a letter.
\<close>

definition nameChar :: "codeunit \<Rightarrow> bool" where
  "nameChar c \<longleftrightarrow> (97 \<le> c \<and> c \<le> 122) \<or> (48 \<le> c \<and> c \<le> 57) \<or> c = 45"

definition plainName :: "jsstring \<Rightarrow> bool" where
  "plainName s \<longleftrightarrow> s \<noteq> [] \<and> list_all nameChar s"

definition tagName :: "jsstring \<Rightarrow> bool" where
  "tagName s \<longleftrightarrow> plainName s \<and> isAsciiLetter (hd s)"

fun inline :: "node list \<Rightarrow> bool" where
  "inline [] = True"
| "inline (Text t # rest) = ((case rest of Text u # r \<Rightarrow> False | _ \<Rightarrow> True) \<and> inline rest)"
| "inline (Element tag attrs kids # rest) =
     (tagName tag \<and> tag \<noteq> js ''p'' \<and> tag \<notin> rawTextElements \<and> tag \<notin> rcdataElements \<and>
      tag \<notin> {js ''tr'', js ''td'', js ''th''} \<and>
      list_all (\<lambda>(name, v). plainName name) attrs \<and> inline kids \<and> inline rest)"

text \<open>A function applied to every text and every attribute value of a tree.\<close>

fun mapText :: "(jsstring \<Rightarrow> jsstring) \<Rightarrow> node list \<Rightarrow> node list" where
  "mapText f [] = []"
| "mapText f (Text t # rest) = Text (f t) # mapText f rest"
| "mapText f (Element tag attrs kids # rest) =
     Element tag (map (\<lambda>(name, v). (name, f v)) attrs) (mapText f kids) # mapText f rest"






definition trimEnd :: "jsstring \<Rightarrow> jsstring" where
  "trimEnd s = rev (dropWhile isSpace (rev s))"






text \<open>
  The markup of each paragraph that is not inside a paragraph, in document order, and
  the trees without an empty paragraph at any depth.
\<close>

fun paragraphMarkups :: "node list \<Rightarrow> jsstring list" where
  "paragraphMarkups [] = []"
| "paragraphMarkups (Text t # rest) = paragraphMarkups rest"
| "paragraphMarkups (Element tag attrs kids # rest) =
     (if tag = js ''p'' then [serialize kids] else paragraphMarkups kids) @ paragraphMarkups rest"




section \<open>Option flags and preset of a request\<close>

text \<open>
  C2, as the claim states it, fails: a submitted string that is not a true-token
  parses to false, not to the default of the option. The form field \<open>justify=false\<close>
  gives \<open>justify = false\<close>, although the default of \<open>justify\<close> is true.
\<close>

theorem parseBoolean_unrecognized_counterexample:
  "js ''false'' \<noteq> js ''true'' \<and> js ''false'' \<noteq> js ''1'' \<and>
   justify (optionsOf [(js ''justify'', FString (js ''false''))]) = False"
  by (simp add: optionsOf_def get_def js_def)

text \<open>
  C2, amended: for each of the five option fields, when the field is absent or is a
  file the parsed option is the documented default (true for \<open>justify\<close>, \<open>tidySpacing\<close>,
  \<open>titleCaseHeadings\<close> and \<open>convertQuotes\<close>, false for \<open>autoNumberHeadings\<close>); when the field
  is a string the parsed option is true exactly if the string is \<open>true\<close> or \<open>1\<close>, and
  false for every other string, whatever the default.
\<close>

theorem options_from_form:
  "justify (optionsOf fd) =
     (case get fd (js ''justify'') of
        Some (FString v) \<Rightarrow> v = js ''true'' \<or> v = js ''1'' | _ \<Rightarrow> True) \<and>
   tidySpacing (optionsOf fd) =
     (case get fd (js ''tidySpacing'') of
        Some (FString v) \<Rightarrow> v = js ''true'' \<or> v = js ''1'' | _ \<Rightarrow> True) \<and>
   titleCaseHeadings (optionsOf fd) =
     (case get fd (js ''titleCaseHeadings'') of
        Some (FString v) \<Rightarrow> v = js ''true'' \<or> v = js ''1'' | _ \<Rightarrow> True) \<and>
   autoNumberHeadings (optionsOf fd) =
     (case get fd (js ''autoNumberHeadings'') of
        Some (FString v) \<Rightarrow> v = js ''true'' \<or> v = js ''1'' | _ \<Rightarrow> False) \<and>
   convertQuotes (optionsOf fd) =
     (case get fd (js ''convertQuotes'') of
        Some (FString v) \<Rightarrow> v = js ''true'' \<or> v = js ''1'' | _ \<Rightarrow> True)"
  by (simp add: optionsOf_def split: option.split formDataEntryValue.split)

text \<open>
  A form with \<open>justify=1\<close>, \<open>tidySpacing=no\<close>, \<open>autoNumberHeadings=true\<close>, a file in
  \<open>convertQuotes\<close> and no \<open>titleCaseHeadings\<close>.
\<close>

theorem options_from_form_witness:
  "justify (optionsOf
     [(js ''justify'', FString (js ''1'')), (js ''tidySpacing'', FString (js ''no'')),
      (js ''autoNumberHeadings'', FString (js ''true'')), (js ''convertQuotes'', FFile [80, 75])]) \<and>
   \<not> tidySpacing (optionsOf
     [(js ''justify'', FString (js ''1'')), (js ''tidySpacing'', FString (js ''no'')),
      (js ''autoNumberHeadings'', FString (js ''true'')), (js ''convertQuotes'', FFile [80, 75])]) \<and>
   titleCaseHeadings (optionsOf
     [(js ''justify'', FString (js ''1'')), (js ''tidySpacing'', FString (js ''no'')),
      (js ''autoNumberHeadings'', FString (js ''true'')), (js ''convertQuotes'', FFile [80, 75])]) \<and>
   autoNumberHeadings (optionsOf
     [(js ''justify'', FString (js ''1'')), (js ''tidySpacing'', FString (js ''no'')),
      (js ''autoNumberHeadings'', FString (js ''true'')), (js ''convertQuotes'', FFile [80, 75])]) \<and>
   convertQuotes (optionsOf
     [(js ''justify'', FString (js ''1'')), (js ''tidySpacing'', FString (js ''no'')),
      (js ''autoNumberHeadings'', FString (js ''true'')), (js ''convertQuotes'', FFile [80, 75])])"
  using options_from_form [of
     "[(js ''justify'', FString (js ''1'')), (js ''tidySpacing'', FString (js ''no'')),
       (js ''autoNumberHeadings'', FString (js ''true'')), (js ''convertQuotes'', FFile [80, 75])]"]
  by (simp add: get_def js_def)

text \<open>
  C5: the preset \<open>constructor\<close> is not one of the three presets, yet the handler keeps
  it: \<open>PRESET_CONFIG["constructor"]\<close> is the inherited \<open>Object\<close> function, which is truthy,
  so the fallback to \<open>classic\<close> is not taken.
\<close>

theorem chosenPreset_inherited_key:
  "chosenPreset [(js ''preset'', FString (js ''constructor''))] = js ''constructor'' \<and>
   js ''constructor'' \<noteq> js ''classic''"
  by (simp add: chosenPreset_def presetId_def get_def PRESET_CONFIG_def objectPrototypeKeys_def
      js_def)

text \<open>
  A string that names neither a preset nor a member of \<open>Object.prototype\<close> does fall
  back to \<open>classic\<close>, and so do the empty string, a file and an absent field.
\<close>

lemma chosenPreset_fallback:
  "get fd (js ''preset'') = Some (FString s) \<Longrightarrow>
   s \<notin> {js ''classic'', js ''modern'', js ''executive''} \<Longrightarrow> s \<notin> set objectPrototypeKeys \<Longrightarrow>
   chosenPreset fd = js ''classic''"
  by (simp add: chosenPreset_def presetId_def PRESET_CONFIG_def js_def)

lemma chosenPreset_absent:
  "get fd (js ''preset'') = None \<or> get fd (js ''preset'') = Some (FString []) \<or>
   get fd (js ''preset'') = Some (FFile b) \<Longrightarrow> chosenPreset fd = js ''classic''"
  by (auto simp: chosenPreset_def presetId_def PRESET_CONFIG_def objectPrototypeKeys_def js_def)

section \<open>Title case and smart quotes\<close>

text \<open>
  C3: a heading text that starts with white space. \<open>split(/\s+/)\<close> gives an empty
  first piece, which takes index 0, so the first word \<open>the\<close> of the heading is at
  index 1 and, as a connector word, stays in lower case. White space at the end does
  the same to the last word.
\<close>

theorem toTitleCase_leading_space:
  "toTitleCase (js '' the cat sat'') = js '' the Cat Sat'' \<and>
   toTitleCase (js ''what we stand for '') = js ''What We Stand for ''"
  by (simp add: js_def toTitleCase_def toLowerCase_def toUpperCase_def upperCaseOf_def titleWord_def
      capitalize_def smallWords_def isSpace_def enumerate_eq_zip Let_def)

text \<open>The heading of the specification's example.\<close>

lemma toTitleCase_example:
  "toTitleCase (js ''the quick BROWN fox jumps over a lazy-dog'') =
   js ''The Quick Brown Fox Jumps Over a Lazy-Dog''"
  by (simp add: js_def toTitleCase_def toLowerCase_def toUpperCase_def upperCaseOf_def titleWord_def
      capitalize_def smallWords_def isSpace_def enumerate_eq_zip Let_def)

text \<open>
  Replacing the opening quotes and then every remaining quote is the directional rule,
  provided the quote itself does not let a quote open.
\<close>

lemma replace_directional:
  assumes "\<not> opensQuote q" "l \<noteq> q"
  shows "replaceEvery q r (replaceOpening q l b s) =
     (if b then directional q l r True s
      else (case s of
              [] \<Rightarrow> []
            | c # cs \<Rightarrow> (if c = q then r else c) # directional q l r (opensQuote c) cs))"
  using assms
proof (induction q l b s rule: replaceOpening.induct)
  case (1 q l b)
  then show ?case by (simp add: replaceEvery_def)
next
  case (2 q l b c)
  then show ?case by (auto simp: replaceEvery_def)
next
  case (3 q l b c d cs)
  then show ?case
    by (cases cs) (auto simp: replaceEvery_def)
qed

lemma length_directional [simp]: "length (directional q l r b s) = length s"
  by (induction s arbitrary: b) auto

lemma nth_directional:
  "i < length s \<Longrightarrow>
   directional q l r b s ! i =
     (if s ! i = q then (if (if i = 0 then b else opensQuote (s ! (i - 1))) then l else r)
      else s ! i)"
proof (induction s arbitrary: i b)
  case Nil
  then show ?case by simp
next
  case (Cons c cs)
  show ?case
  proof (cases i)
    case 0
    then show ?thesis by simp
  next
    case (Suc j)
    with Cons.prems have "j < length cs" by simp
    from Cons.IH [OF this, of "opensQuote c"] Suc show ?thesis
      by (cases j) auto
  qed
qed

lemma convertSmartQuotes_directional:
  "convertSmartQuotes s = directional 39 8216 8217 True (directional 34 8220 8221 True s)"
proof -
  have a: "\<not> opensQuote 34" "\<not> opensQuote 39"
    by (simp_all add: opensQuote_def isSpace_def)
  show ?thesis
    unfolding convertSmartQuotes_def Let_def
    using replace_directional [OF a(1), of 8220 8221 True s]
      replace_directional [OF a(2), of 8216 8217 True "directional 34 8220 8221 True s"]
    by simp
qed

text \<open>
  C8: the result has the length of the text, and at every position a straight double
  quote (34) has become the opening curly quote (U+201C) if it is at the start of the
  text or follows white space or one of \<open>( [ { <\<close>, and the closing one (U+201D)
  otherwise; a straight single quote (39) has become U+2018 or U+2019 by the same
  rule; every other code unit is unchanged. The text of the example becomes the text
  that the specification gives.
\<close>

theorem convertSmartQuotes_rule:
  \<open>length (convertSmartQuotes s) = length s \<and>
   (\<forall>i < length s.
      convertSmartQuotes s ! i =
        (if s ! i = 34 then (if i = 0 \<or> opensQuote (s ! (i - 1)) then 8220 else 8221)
         else if s ! i = 39 then (if i = 0 \<or> opensQuote (s ! (i - 1)) then 8216 else 8217)
         else s ! i)) \<and>
   convertSmartQuotes (js ''He said "hello" and it'' @ [39] @ js ''s fine'') =
     js ''He said '' @ [8220] @ js ''hello'' @ [8221] @ js '' and it'' @ [8217] @ js ''s fine''\<close>
proof (intro conjI allI impI)
  show "length (convertSmartQuotes s) = length s"
    by (simp add: convertSmartQuotes_directional)
next
  fix i assume i: "i < length s"
  let ?d = "directional 34 8220 8221 True s"
  have o: "\<not> opensQuote 34" "\<not> opensQuote 8220" "\<not> opensQuote 8221"
    by (simp_all add: opensQuote_def isSpace_def)
  have d: "?d ! i =
      (if s ! i = 34
       then (if (if i = 0 then True else opensQuote (s ! (i - 1))) then 8220 else 8221)
       else s ! i)"
    using nth_directional [OF i] by simp
  have p: "opensQuote (?d ! (i - 1)) = opensQuote (s ! (i - 1))" if "i \<noteq> 0"
  proof -
    from that i have "i - 1 < length s" by simp
    from nth_directional [OF this, of 34 8220 8221 True] o show ?thesis
      by (auto split: if_splits)
  qed
  have "convertSmartQuotes s ! i =
      (if ?d ! i = 39
       then (if (if i = 0 then True else opensQuote (?d ! (i - 1))) then 8216 else 8217)
       else ?d ! i)"
    unfolding convertSmartQuotes_directional
    using nth_directional [of i ?d 39 8216 8217 True] i by simp
  then show "convertSmartQuotes s ! i =
        (if s ! i = 34 then (if i = 0 \<or> opensQuote (s ! (i - 1)) then 8220 else 8221)
         else if s ! i = 39 then (if i = 0 \<or> opensQuote (s ! (i - 1)) then 8216 else 8217)
         else s ! i)"
    using d p by (cases "i = 0") auto
next
  show \<open>convertSmartQuotes (js ''He said "hello" and it'' @ [39] @ js ''s fine'') =
     js ''He said '' @ [8220] @ js ''hello'' @ [8221] @ js '' and it'' @ [8217] @ js ''s fine''\<close>
    by (simp add: js_def convertSmartQuotes_def replaceEvery_def opensQuote_def isSpace_def)
qed

text \<open>The text \<open>("a" 'b'\<close>: both kinds of quote, opening and closing.\<close>

theorem convertSmartQuotes_rule_witness:
  \<open>convertSmartQuotes (js ''("a" '' @ [39] @ js ''b'' @ [39]) ! 1 = 8220 \<and>
   convertSmartQuotes (js ''("a" '' @ [39] @ js ''b'' @ [39]) ! 3 = 8221 \<and>
   convertSmartQuotes (js ''("a" '' @ [39] @ js ''b'' @ [39]) ! 5 = 8216 \<and>
   convertSmartQuotes (js ''("a" '' @ [39] @ js ''b'' @ [39]) ! 7 = 8217\<close>
  using convertSmartQuotes_rule [of \<open>js ''("a" '' @ [39] @ js ''b'' @ [39]\<close>]
  by (simp add: js_def opensQuote_def isSpace_def)

section \<open>Style synthesis\<close>

lemma sheet_suffix:
  "suffix (numbering preset options @ js ''\<newline>'') (buildStyleSheet preset options)"
  unfolding buildStyleSheet_def
  by (rule suffix_order.refl | rule suffix_appendI)+

lemma sublist_sheet:
  assumes "sublist r (numbering preset options)"
  shows "sublist r (buildStyleSheet preset options)"
proof -
  obtain rules where
    s: "buildStyleSheet preset options = rules @ numbering preset options @ js ''\<newline>''"
    using sheet_suffix [of preset options] by (auto simp: suffix_def)
  from assms obtain ps ss where "numbering preset options = ps @ r @ ss"
    by (auto simp: sublist_def)
  then have "buildStyleSheet preset options = (rules @ ps) @ r @ (ss @ js ''\<newline>'')"
    using s by simp
  then show ?thesis
    unfolding sublist_def by blast
qed

lemmas sublist_eval = sublist_Cons_right prefix_code

text \<open>The six counter rules are written whatever the preset object is.\<close>

lemma numbering_counter_rules:
  assumes "autoNumberHeadings options"
  shows
    \<open>sublist (js ''.docx-content {\<newline>    counter-reset: h1;\<newline>  }'')
       (numbering preset options)\<close>
    \<open>sublist (js ''.docx-content h1 {\<newline>    counter-reset: h2;\<newline>  }'')
       (numbering preset options)\<close>
    \<open>sublist
       (js ''.docx-content h1::before {\<newline>    counter-increment: h1;\<newline>    content: counter(h1) ". ";\<newline>  }'')
       (numbering preset options)\<close>
    \<open>sublist (js ''.docx-content h2 {\<newline>    counter-reset: h3;\<newline>  }'')
       (numbering preset options)\<close>
    \<open>sublist
       (js ''.docx-content h2::before {\<newline>    counter-increment: h2;\<newline>    content: counter(h1) "." counter(h2) " ";\<newline>  }'')
       (numbering preset options)\<close>
    \<open>sublist
       (js ''.docx-content h3::before {\<newline>    counter-increment: h3;\<newline>    content: counter(h1) "." counter(h2) "." counter(h3) " ";\<newline>  }'')
       (numbering preset options)\<close>
  using assms by (simp_all add: numbering_def js_def sublist_eval)

lemma numbering_before_rule:
  assumes "autoNumberHeadings options" "c = classic \<or> c = modern \<or> c = executive"
  shows
    \<open>sublist
       (js ''.docx-content h1::before,\<newline>  .docx-content h2::before,\<newline>  .docx-content h3::before {\<newline>    font-weight: '' @
        numberToString (headingWeight c) @ js '';\<newline>    color: '' @ accent c @
        js '';\<newline>  }'')
       (numbering (Config c) options)\<close>
  using assms
  by (elim disjE)
     (simp_all add: numbering_def js_def sublist_eval classic_def modern_def executive_def
        numberToString.simps)

lemma no_counter_classic:
  assumes "\<not> autoNumberHeadings options"
  shows "\<not> sublist (js ''counter'') (buildStyleSheet (Config classic) options)"
  using assms
  by (cases "justify options")
     (simp_all add: buildStyleSheet_def numbering_def classic_def js_def numberToString.simps
        sublist_eval)

lemma no_counter_modern:
  assumes "\<not> autoNumberHeadings options"
  shows "\<not> sublist (js ''counter'') (buildStyleSheet (Config modern) options)"
  using assms
  by (cases "justify options")
     (simp_all add: buildStyleSheet_def numbering_def modern_def js_def numberToString.simps
        sublist_eval)

lemma no_counter_executive:
  assumes "\<not> autoNumberHeadings options"
  shows "\<not> sublist (js ''counter'') (buildStyleSheet (Config executive) options)"
  using assms
  by (cases "justify options")
     (simp_all add: buildStyleSheet_def numbering_def executive_def js_def numberToString.simps
        sublist_eval)

text \<open>
  C9: for each of the three presets and every options record, when
  \<open>autoNumberHeadings\<close> is true the stylesheet contains the rule that resets the
  level-1 counter on the content container, the rules by which a level-1 heading
  resets the level-2 counter and a level-2 heading the level-3 counter, the three
  \<open>::before\<close> rules that increment the counter of their level and show the dotted
  number, and the rule that gives the numbers the heading weight and the accent color
  of the preset; when it is false the text \<open>counter\<close> occurs nowhere in the
  stylesheet. So the counter rules are present if and only if the option is true.
\<close>

theorem buildStyleSheet_numbering:
  assumes "c = classic \<or> c = modern \<or> c = executive"
  shows
    \<open>(autoNumberHeadings options \<longrightarrow>
        sublist (js ''.docx-content {\<newline>    counter-reset: h1;\<newline>  }'')
          (buildStyleSheet (Config c) options) \<and>
        sublist (js ''.docx-content h1 {\<newline>    counter-reset: h2;\<newline>  }'')
          (buildStyleSheet (Config c) options) \<and>
        sublist
          (js ''.docx-content h1::before {\<newline>    counter-increment: h1;\<newline>    content: counter(h1) ". ";\<newline>  }'')
          (buildStyleSheet (Config c) options) \<and>
        sublist (js ''.docx-content h2 {\<newline>    counter-reset: h3;\<newline>  }'')
          (buildStyleSheet (Config c) options) \<and>
        sublist
          (js ''.docx-content h2::before {\<newline>    counter-increment: h2;\<newline>    content: counter(h1) "." counter(h2) " ";\<newline>  }'')
          (buildStyleSheet (Config c) options) \<and>
        sublist
          (js ''.docx-content h3::before {\<newline>    counter-increment: h3;\<newline>    content: counter(h1) "." counter(h2) "." counter(h3) " ";\<newline>  }'')
          (buildStyleSheet (Config c) options) \<and>
        sublist
          (js ''.docx-content h1::before,\<newline>  .docx-content h2::before,\<newline>  .docx-content h3::before {\<newline>    font-weight: '' @
           numberToString (headingWeight c) @ js '';\<newline>    color: '' @ accent c @
           js '';\<newline>  }'')
          (buildStyleSheet (Config c) options)) \<and>
     (\<not> autoNumberHeadings options \<longrightarrow>
        \<not> sublist (js ''counter'') (buildStyleSheet (Config c) options))\<close>
  using assms numbering_counter_rules [of options "Config c", THEN sublist_sheet]
    numbering_before_rule [of options c, THEN sublist_sheet]
    no_counter_classic [of options] no_counter_modern [of options]
    no_counter_executive [of options]
  by blast

text \<open>The modern preset with numbering, and the executive preset without.\<close>

theorem buildStyleSheet_numbering_witness:
  \<open>sublist (js ''.docx-content h2 {\<newline>    counter-reset: h3;\<newline>  }'')
     (buildStyleSheet (Config modern)
        \<lparr> justify = True, tidySpacing = True, titleCaseHeadings = True,
          autoNumberHeadings = True, convertQuotes = True \<rparr>) \<and>
   sublist
     (js ''.docx-content h1::before,\<newline>  .docx-content h2::before,\<newline>  .docx-content h3::before {\<newline>    font-weight: '' @
      numberToString (headingWeight modern) @ js '';\<newline>    color: '' @ accent modern @
      js '';\<newline>  }'')
     (buildStyleSheet (Config modern)
        \<lparr> justify = True, tidySpacing = True, titleCaseHeadings = True,
          autoNumberHeadings = True, convertQuotes = True \<rparr>) \<and>
   \<not> sublist (js ''counter'')
     (buildStyleSheet (Config executive)
        \<lparr> justify = False, tidySpacing = True, titleCaseHeadings = True,
          autoNumberHeadings = False, convertQuotes = True \<rparr>)\<close>
  using
    buildStyleSheet_numbering [of modern
      "\<lparr> justify = True, tidySpacing = True, titleCaseHeadings = True,
         autoNumberHeadings = True, convertQuotes = True \<rparr>"]
    buildStyleSheet_numbering [of executive
      "\<lparr> justify = False, tidySpacing = True, titleCaseHeadings = True,
         autoNumberHeadings = False, convertQuotes = True \<rparr>"]
  by simp

section \<open>Document assembly and the request handler\<close>

lemma buildHtmlDocument_eq:
  assumes "PRESET_CONFIG preset = Some config"
  shows "buildHtmlDocument san bodyMarkup preset options log =
     (case san bodyMarkup of
        Inl e \<Rightarrow> Inl e
      | Inr s \<Rightarrow>
          Inr \<lparr> documentHtml =
                  documentPrefix (buildStyleSheet config options) @ s @ documentSuffix,
                previewHtml =
                  previewPrefix (buildStyleSheet config options) @ s @ previewSuffix \<rparr>,
      log @ [Sanitize bodyMarkup])"
  using assms
  by (simp add: buildHtmlDocument_def documentPrefix_def documentSuffix_def previewPrefix_def
      previewSuffix_def Let_def split: sum.split)

lemma chosenPreset_configured: "\<exists>config. PRESET_CONFIG (chosenPreset fd) = Some config"
  by (cases "PRESET_CONFIG (toPropertyKey (presetId fd))")
     (simp_all add: chosenPreset_def, simp add: PRESET_CONFIG_def)

text \<open>
  What \<open>POST\<close> does with an uploaded file, stage by stage.
\<close>

lemma POST_file:
  assumes "get fd (js ''file'') = Some (FFile file)"
    and "PRESET_CONFIG (chosenPreset fd) = Some config"
  shows "POST ext (Inr fd) =
     (case convertToHtml ext file of
        Inl e \<Rightarrow> (Inr formatFailure, [Decode file, ConsoleError e])
      | Inr rawHtml \<Rightarrow>
          (case sanitize ext (transformed (optionsOf fd) rawHtml) of
             Inl e \<Rightarrow>
               (Inr formatFailure,
                [Decode file, Sanitize (transformed (optionsOf fd) rawHtml), ConsoleError e])
           | Inr s \<Rightarrow>
               (case asBlob ext
                       (documentPrefix (buildStyleSheet config (optionsOf fd)) @ s @
                        documentSuffix) of
                  Inl e \<Rightarrow>
                    (Inr formatFailure,
                     [Decode file, Sanitize (transformed (optionsOf fd) rawHtml),
                      Encode (documentPrefix (buildStyleSheet config (optionsOf fd)) @ s @
                              documentSuffix),
                      ConsoleError e])
                | Inr base64 \<Rightarrow>
                    (Inr \<lparr> status = 200,
                           body = ResultBody base64
                                    (previewPrefix (buildStyleSheet config (optionsOf fd)) @ s @
                                     previewSuffix)
                                    (chosenPreset fd) \<rparr>,
                     [Decode file, Sanitize (transformed (optionsOf fd) rawHtml),
                      Encode (documentPrefix (buildStyleSheet config (optionsOf fd)) @ s @
                              documentSuffix)]))))"
  using assms
  by (simp add: POST_def transformed_def Let_def caught_def buildHtmlDocument_eq [OF assms(2)]
      split: sum.split split del: if_split)



text \<open>
  C4: a request whose body cannot be read as form data. \<open>request.formData()\<close> is awaited
  on line 296, before the \<open>try\<close> block of lines 314 to 351, so its exception leaves the
  handler: no library is called, nothing is logged, and none of the three responses
  is returned, whatever the exception is. A body that can be read and holds no file
  is answered with status 400.
\<close>

theorem POST_unreadable_form:
  "POST ext (Inl e) = (Inl e, []) \<and>
   POST ext (Inr []) =
     (Inr \<lparr> status = 400, body = ErrorBody (js ''Upload a valid .docx file.'') \<rparr>, [])"
  by (simp add: POST_def invalidUpload_def get_def)

text \<open>
  For every request whose form data can be read, the handler returns exactly one of
  the three responses. When the file field is missing or is not a file, it is status
  400 with the error \<open>Upload a valid .docx file.\<close>, and no library has been called.
  Otherwise, when the decoder, the sanitizer or the encoder throws, it is status 500
  with the fixed message, and the log ends with the logged exception of that stage;
  when none throws it is status 200 with the encoded document of the assembler, the
  preview of the assembler around the same sanitized content, and the chosen preset,
  after exactly one decode, one sanitize and one encode call.
\<close>

lemma POST_response:
  "(case get fd (js ''file'') of
      Some (FFile file) \<Rightarrow>
        (\<exists>config.
           PRESET_CONFIG (chosenPreset fd) = Some config \<and>
           (case convertToHtml ext file of
              Inl e \<Rightarrow>
                POST ext (Inr fd) =
                  (Inr \<lparr> status = 500,
                         body = ErrorBody (js ''We could not format that document. Please ensure it is a valid .docx exported from Word.'') \<rparr>,
                   [Decode file, ConsoleError e])
            | Inr rawHtml \<Rightarrow>
                (case sanitize ext (transformed (optionsOf fd) rawHtml) of
                   Inl e \<Rightarrow>
                     POST ext (Inr fd) =
                       (Inr \<lparr> status = 500,
                              body = ErrorBody (js ''We could not format that document. Please ensure it is a valid .docx exported from Word.'') \<rparr>,
                        [Decode file, Sanitize (transformed (optionsOf fd) rawHtml),
                         ConsoleError e])
                 | Inr s \<Rightarrow>
                     (case asBlob ext
                             (documentPrefix (buildStyleSheet config (optionsOf fd)) @ s @
                              documentSuffix) of
                        Inl e \<Rightarrow>
                          POST ext (Inr fd) =
                            (Inr \<lparr> status = 500,
                                   body = ErrorBody (js ''We could not format that document. Please ensure it is a valid .docx exported from Word.'') \<rparr>,
                             [Decode file, Sanitize (transformed (optionsOf fd) rawHtml),
                              Encode (documentPrefix (buildStyleSheet config (optionsOf fd)) @ s @
                                      documentSuffix),
                              ConsoleError e])
                      | Inr base64 \<Rightarrow>
                          POST ext (Inr fd) =
                            (Inr \<lparr> status = 200,
                                   body = ResultBody base64
                                     (previewPrefix (buildStyleSheet config (optionsOf fd)) @ s @
                                      previewSuffix)
                                     (chosenPreset fd) \<rparr>,
                             [Decode file, Sanitize (transformed (optionsOf fd) rawHtml),
                              Encode (documentPrefix (buildStyleSheet config (optionsOf fd)) @ s @
                                      documentSuffix)])))))
    | _ \<Rightarrow>
        POST ext (Inr fd) =
          (Inr \<lparr> status = 400, body = ErrorBody (js ''Upload a valid .docx file.'') \<rparr>, []))"
proof (cases "get fd (js ''file'')")
  case None
  then show ?thesis by (simp add: POST_def invalidUpload_def)
next
  case (Some v)
  show ?thesis
  proof (cases v)
    case (FString x)
    with Some show ?thesis by (simp add: POST_def invalidUpload_def)
  next
    case (FFile bytes)
    with Some have f: "get fd (js ''file'') = Some (FFile bytes)" by simp
    obtain config where c: "PRESET_CONFIG (chosenPreset fd) = Some config"
      using chosenPreset_configured by blast
    have "case convertToHtml ext bytes of
            Inl e \<Rightarrow>
              POST ext (Inr fd) =
                (Inr \<lparr> status = 500,
                       body = ErrorBody (js ''We could not format that document. Please ensure it is a valid .docx exported from Word.'') \<rparr>,
                 [Decode bytes, ConsoleError e])
          | Inr rawHtml \<Rightarrow>
              (case sanitize ext (transformed (optionsOf fd) rawHtml) of
                 Inl e \<Rightarrow>
                   POST ext (Inr fd) =
                     (Inr \<lparr> status = 500,
                            body = ErrorBody (js ''We could not format that document. Please ensure it is a valid .docx exported from Word.'') \<rparr>,
                      [Decode bytes, Sanitize (transformed (optionsOf fd) rawHtml),
                       ConsoleError e])
               | Inr s \<Rightarrow>
                   (case asBlob ext
                           (documentPrefix (buildStyleSheet config (optionsOf fd)) @ s @
                            documentSuffix) of
                      Inl e \<Rightarrow>
                        POST ext (Inr fd) =
                          (Inr \<lparr> status = 500,
                                 body = ErrorBody (js ''We could not format that document. Please ensure it is a valid .docx exported from Word.'') \<rparr>,
                           [Decode bytes, Sanitize (transformed (optionsOf fd) rawHtml),
                            Encode (documentPrefix (buildStyleSheet config (optionsOf fd)) @ s @
                                    documentSuffix),
                            ConsoleError e])
                    | Inr base64 \<Rightarrow>
                        POST ext (Inr fd) =
                          (Inr \<lparr> status = 200,
                                 body = ResultBody base64
                                   (previewPrefix (buildStyleSheet config (optionsOf fd)) @ s @
                                    previewSuffix)
                                   (chosenPreset fd) \<rparr>,
                           [Decode bytes, Sanitize (transformed (optionsOf fd) rawHtml),
                            Encode (documentPrefix (buildStyleSheet config (optionsOf fd)) @ s @
                                    documentSuffix)])))"
      unfolding POST_file [OF f c]
      by (simp add: formatFailure_def split: sum.splits)
    with c show ?thesis unfolding f by auto
  qed
qed

text \<open>
  A valid upload with a decoder that returns \<open><p>a  b</p>\<close>, a sanitizer and an
  encoder that return their input; and a form without a file.
\<close>

lemma POST_example:
  "(\<exists>preview d.
      POST \<lparr> convertToHtml = (\<lambda>b. Inr (js ''<p>a  b</p>'')), sanitize = Inr, asBlob = Inr \<rparr>
        (Inr [(js ''file'', FFile [80, 75])]) =
      (Inr \<lparr> status = 200, body = ResultBody d preview (js ''classic'') \<rparr>,
       [Decode [80, 75], Sanitize (js ''<p>a b</p>''), Encode d])) \<and>
   POST \<lparr> convertToHtml = (\<lambda>b. Inr (js ''<p>a  b</p>'')), sanitize = Inr, asBlob = Inr \<rparr>
     (Inr [(js ''file'', FString (js ''report.docx''))]) =
   (Inr \<lparr> status = 400, body = ErrorBody (js ''Upload a valid .docx file.'') \<rparr>, [])"
proof -
  let ?ext = "\<lparr> convertToHtml = (\<lambda>b. Inr (js ''<p>a  b</p>'')), sanitize = Inr, asBlob = Inr \<rparr>"
  have g1: "get [(js ''file'', FFile [80, 75])] (js ''file'') = Some (FFile [80, 75])"
    by (simp add: get_def)
  have g2: "get [(js ''file'', FString (js ''report.docx''))] (js ''file'') =
      Some (FString (js ''report.docx''))"
    by (simp add: get_def)
  have c: "chosenPreset [(js ''file'', FFile [80, 75])] = js ''classic''"
    by (simp add: chosenPreset_def presetId_def get_def PRESET_CONFIG_def js_def)
  have p: "PRESET_CONFIG (chosenPreset [(js ''file'', FFile [80, 75])]) = Some (Config classic)"
    by (simp add: c PRESET_CONFIG_def)
  have m: "transformed (optionsOf [(js ''file'', FFile [80, 75])]) (js ''<p>a  b</p>'') =
      js ''<p>a b</p>''"
    unfolding transformed_def Let_def
    by (simp add: optionsOf_def get_def js_def parseFragment_def normalizeSpacing_def normalizeHtml_def
        replaceNbsp.simps decodeEntities.simps trim_def isSpace_def isPunct_def
        textToken_def tagToken_def isAsciiLetter_def isNameChar_def isHtmlSpace_def
        asciiLowerCase_def implied_def voidElements_def escapeText_def serializeAttributes_def isEmpty_def
        convertSmartQuotes_def replaceEvery_def opensQuote_def serialize_def stateAfter_def
        rawTextElements_def rcdataElements_def)
  have "\<exists>preview d.
      POST ?ext (Inr [(js ''file'', FFile [80, 75])]) =
      (Inr \<lparr> status = 200, body = ResultBody d preview (js ''classic'') \<rparr>,
       [Decode [80, 75], Sanitize (js ''<p>a b</p>''), Encode d])"
    by (simp add: POST_file [OF g1 p] m c)
  moreover have "POST ?ext (Inr [(js ''file'', FString (js ''report.docx''))]) =
      (Inr \<lparr> status = 400, body = ErrorBody (js ''Upload a valid .docx file.'') \<rparr>, [])"
    by (simp add: POST_def g2 invalidUpload_def)
  ultimately show ?thesis by simp
qed

section \<open>Idempotence of the replacements\<close>

subsection \<open>The replacements on the markup of a paragraph\<close>


lemma collapseSpaces_nonspace [simp]:
  "\<not> isSpace c \<Longrightarrow> collapseSpaces (c # cs) = c # collapseSpaces cs"
  by simp

lemma stripBeforePunct_nonspace [simp]:
  "\<not> isSpace c \<Longrightarrow> stripBeforePunct (c # cs) = c # stripBeforePunct cs"
  by simp

lemma noAdjacentSpaces_Cons:
  "noAdjacentSpaces (c # z) \<longleftrightarrow>
     (z \<noteq> [] \<longrightarrow> \<not> (isSpace c \<and> isSpace (hd z))) \<and> noAdjacentSpaces z"
  by (cases z) auto


lemma collapseSpaces_Nil_iff [simp]: "collapseSpaces y = [] \<longleftrightarrow> y = []"
  by (cases y) auto





lemma stripBeforePunct_Nil_iff [simp]: "stripBeforePunct y = [] \<longleftrightarrow> y = []"
  by (cases y) auto


lemma hd_stripBeforePunct:
  "noAdjacentSpaces y \<Longrightarrow> y \<noteq> [] \<Longrightarrow> \<not> isSpace (hd y) \<Longrightarrow> hd (stripBeforePunct y) = hd y"
  by (cases y) auto

lemma noAdjacentSpaces_tl: "noAdjacentSpaces y \<Longrightarrow> noAdjacentSpaces (tl y)"
  by (cases y) (auto simp: noAdjacentSpaces_Cons)






























subsection \<open>Replacements on escaped text\<close>





lemma escapeText_Cons:
  "escapeText (c # t) =
     (if c = 38 then js ''&amp;'' else if c = 160 then js ''&nbsp;''
      else if c = 60 then js ''&lt;'' else if c = 62 then js ''&gt;'' else [c]) @ escapeText t"
  by (simp add: escapeText_def)


lemma escapeText_Nil [simp]: "escapeText [] = []"
  by (simp add: escapeText_def)

lemma escapeAttribute_Nil [simp]: "escapeAttribute [] = []"
  by (simp add: escapeAttribute_def)




















lemma trimEnd_Nil [simp]: "trimEnd [] = []"
  by (simp add: trimEnd_def)






subsection \<open>Replacements on serialized trees\<close>







lemma serializeAttributes_Nil [simp]: "serializeAttributes [] = []"
  by (simp add: serializeAttributes_def)


lemma serialize_Nil [simp]: "serialize [] = []"
  by (simp add: serialize_def)

lemma serialize_Text [simp]: "serialize (Text t # rest) = escapeText t @ serialize rest"
  by (simp add: serialize_def)



lemma inline_mapText [simp]: "inline (mapText f K) = inline K"
proof (induction K rule: inline.induct)
  case 1
  then show ?case by simp
next
  case (2 t rest)
  show ?case
  proof (cases rest)
    case Nil
    then show ?thesis by simp
  next
    case (Cons a list)
    then show ?thesis using 2 by (cases a) auto
  qed
next
  case (3 tag attrs kids rest)
  then show ?case by (auto simp: list_all_iff)
qed























lemma references_Cons: "c \<noteq> 38 \<Longrightarrow> references (c # s) = references s"
  by simp












subsection \<open>Parsing the serialization of inline nodes\<close>

lemma decodeEntities_Nil [simp]: "decodeEntities [] = []"
  by (simp add: decodeEntities.simps)





lemma escapeText_Nil_iff [simp]: "escapeText t = [] \<longleftrightarrow> t = []"
  by (cases t) (auto simp: escapeText_Cons js_def)





























subsection \<open>The paragraphs of the decoder\<close>




section \<open>Spacing normalization\<close>

lemmas parse_eval = js_def parseFragment_def decodeEntities.simps textToken_def tagToken_def
  isAsciiLetter_def isNameChar_def isHtmlSpace_def asciiLowerCase_def voidElements_def implied_def
  stateAfter_def rawTextElements_def rcdataElements_def rawToken_def closesRawText_def

lemmas norm_eval = normalizeSpacing_def normalizeHtml_def replaceNbsp.simps trim_def serialize_def
  isSpace_def isPunct_def escapeText_def escapeAttribute_def serializeAttributes_def
  isEmpty_def prev_def previousBlank_def isElement_def isParagraph_def


lemma removeEmptyParagraphs_append:
  "removeEmptyParagraphs (xs @ ys) = removeEmptyParagraphs xs @ removeEmptyParagraphs ys"
  by (induction xs rule: removeEmptyParagraphs.induct) auto



lemma withoutParagraphs_append:
  "withoutParagraphs (xs @ ys) = withoutParagraphs xs @ withoutParagraphs ys"
  by (induction xs rule: withoutParagraphs.induct) auto

lemma withoutParagraphs_loop:
  "withoutParagraphs (normalizeParagraphs visited xs) =
   withoutParagraphs visited @ withoutParagraphs xs"
  by (induction visited xs rule: normalizeParagraphs.induct)
     (auto simp: Let_def withoutParagraphs_append)

lemma withoutParagraphs_sweep:
  "withoutParagraphs (removeEmptyParagraphs xs) = withoutParagraphs xs"
  by (induction xs rule: removeEmptyParagraphs.induct) auto

lemma noParagraph_append: "noParagraph (xs @ ys) \<longleftrightarrow> noParagraph xs \<and> noParagraph ys"
  by (induction xs rule: noParagraph.induct) auto

lemma noParagraph_loop:
  "noParagraph xs \<Longrightarrow> normalizeParagraphs visited xs = visited @ xs"
  by (induction visited xs rule: normalizeParagraphs.induct) auto

lemma noParagraph_sweep: "noParagraph xs \<Longrightarrow> removeEmptyParagraphs xs = xs"
  by (induction xs rule: removeEmptyParagraphs.induct) auto

text \<open>
  C10, as the claim states it, fails: a table cell is not a paragraph, but the decoder
  puts the text of a cell in a paragraph, and the text content of the cell changes
  with it.
\<close>

theorem normalizeSpacing_cell_counterexample:
  "normalizeSpacing [Element (js ''td'') [] [Element (js ''p'') [] [Text (js ''a  b'')]]] =
     [Element (js ''td'') [] [Element (js ''p'') [] [Text (js ''a b'')]]] \<and>
   textOf [Element (js ''td'') [] [Element (js ''p'') [] [Text (js ''a  b'')]]] = js ''a  b'' \<and>
   textOf (normalizeSpacing [Element (js ''td'') [] [Element (js ''p'') [] [Text (js ''a  b'')]]]) = js ''a b''"
  by (simp add: parse_eval norm_eval)

text \<open>
  C10, amended: spacing normalization changes and removes paragraph elements only.
  The tree without its paragraphs is the same before and after, so every text node
  and every element outside the paragraphs keeps its place, its tag, its attributes
  and its text; and a tree that holds no paragraph is returned as it is, whatever
  white space its headings, list items, cells or quotations hold.
\<close>

theorem normalizeSpacing_frame:
  "withoutParagraphs (normalizeSpacing tree) = withoutParagraphs tree \<and>
   (noParagraph tree \<longrightarrow> normalizeSpacing tree = tree)"
  by (simp add: normalizeSpacing_def withoutParagraphs_loop withoutParagraphs_sweep
      noParagraph_loop noParagraph_sweep)

text \<open>A heading and a list with non-breaking spaces, runs of spaces and a space before a full stop.\<close>

theorem normalizeSpacing_frame_witness:
  "normalizeSpacing
     [Element (js ''h1'') [] [Text (js ''A  title ,'')],
      Element (js ''ul'') [] [Element (js ''li'') [] [Text [160, 160, 120, 32, 46]]]] =
   [Element (js ''h1'') [] [Text (js ''A  title ,'')],
    Element (js ''ul'') [] [Element (js ''li'') [] [Text [160, 160, 120, 32, 46]]]]"
  using normalizeSpacing_frame [of
    "[Element (js ''h1'') [] [Text (js ''A  title ,'')],
      Element (js ''ul'') [] [Element (js ''li'') [] [Text [160, 160, 120, 32, 46]]]]"]
  by (simp add: js_def)

section \<open>The tree that spacing normalization returns\<close>



lemma isEmpty_Nil [simp]: "isEmpty []"
  by (simp add: isEmpty_def)


lemma paragraphMarkups_append:
  "paragraphMarkups (a @ b) = paragraphMarkups a @ paragraphMarkups b"
  by (induction a rule: paragraphMarkups.induct) auto













text \<open>
  Nor is it idempotent on raw text: in \<open><p><style>x&nbsp ;y</style></p>\<close> the first pass
  removes the space before the semicolon, and the second pass finds \<open>&nbsp;\<close> in the
  text of the \<open>style\<close> element, which is serialized as it is.
\<close>

lemma normalizeSpacing_style_example:
  "normalizeSpacing
     [Element (js ''p'') [] [Element (js ''style'') [] [Text (js ''x&nbsp ;y'')]]] =
     [Element (js ''p'') [] [Element (js ''style'') [] [Text (js ''x&nbsp;y'')]]] \<and>
   normalizeSpacing
     [Element (js ''p'') [] [Element (js ''style'') [] [Text (js ''x&nbsp;y'')]]] =
     [Element (js ''p'') [] [Element (js ''style'') [] [Text (js ''x y'')]]]"
  by (simp add: parse_eval norm_eval)



end
